theory Spec2Isabelle
  imports Complex_Main
begin

section \<open>Numbers, vectors and quaternions\<close>

text \<open>
  The component \<open>BirthdayLove\<close> computes with JavaScript numbers, which are IEEE
  binary64 values. They are modelled as \<^typ>\<open>real\<close> and the arithmetic of the source is
  kept operation by operation. The two blend factors of the frame callback are computed
  with the rounding of binary64 (section below), because their range depends on it;
  elsewhere rounding is not represented. Non-finite values are not represented.

  \<open>Vector3\<close> and \<open>Quaternion\<close> are the value types of the rendering library. Their
  methods mutate the receiver and return it; here each method is a function from the
  receiver's old value (first argument) to its new value.
\<close>

record Vector3 =
  vx :: real
  vy :: real
  vz :: real

record Quaternion =
  qx :: real
  qy :: real
  qz :: real
  qw :: real

text \<open>\<open>new Vector3()\<close> and \<open>new Quaternion()\<close>: the zero vector and the identity rotation.\<close>

definition new_Vector3 :: Vector3 where
  "new_Vector3 = \<lparr>vx = 0, vy = 0, vz = 0\<rparr>"

definition new_Quaternion :: Quaternion where
  "new_Quaternion = \<lparr>qx = 0, qy = 0, qz = 0, qw = 1\<rparr>"

text \<open>\<open>new Vector3(...t)\<close> for a three-element array \<open>t\<close>.\<close>

fun Vector3_of :: "real \<times> real \<times> real \<Rightarrow> Vector3" where
  "Vector3_of (a, b, c) = \<lparr>vx = a, vy = b, vz = c\<rparr>"

text \<open>\<open>this.add(v)\<close>, \<open>this.multiplyScalar(s)\<close> and \<open>this.lerp(v, alpha)\<close>.\<close>

definition add :: "Vector3 \<Rightarrow> Vector3 \<Rightarrow> Vector3" where
  "add this v = \<lparr>vx = vx this + vx v, vy = vy this + vy v, vz = vz this + vz v\<rparr>"

definition multiplyScalar :: "Vector3 \<Rightarrow> real \<Rightarrow> Vector3" where
  "multiplyScalar this s = \<lparr>vx = vx this * s, vy = vy this * s, vz = vz this * s\<rparr>"

definition lerp :: "Vector3 \<Rightarrow> Vector3 \<Rightarrow> real \<Rightarrow> Vector3" where
  "lerp this v alpha =
     \<lparr>vx = vx this + (vx v - vx this) * alpha,
      vy = vy this + (vy v - vy this) * alpha,
      vz = vz this + (vz v - vz this) * alpha\<rparr>"

text \<open>
  \<open>new Quaternion().setFromEuler(new Euler(...r))\<close>: the Euler angles are read in the
  library's default order XYZ.
\<close>

fun setFromEuler :: "real \<times> real \<times> real \<Rightarrow> Quaternion" where
  "setFromEuler (ex, ey, ez) =
     (let c1 = cos (ex / 2); c2 = cos (ey / 2); c3 = cos (ez / 2);
          s1 = sin (ex / 2); s2 = sin (ey / 2); s3 = sin (ez / 2)
      in \<lparr>qx = s1 * c2 * c3 + c1 * s2 * s3,
          qy = c1 * s2 * c3 - s1 * c2 * s3,
          qz = c1 * c2 * s3 + s1 * s2 * c3,
          qw = c1 * c2 * c3 - s1 * s2 * s3\<rparr>)"

text \<open>
  Two functions of the host are not fixed by the source: the interpolation that
  \<open>Quaternion.slerp\<close> performs strictly between its end points, and \<open>Math.exp\<close>, which the
  language leaves to the engine. They are parameters of the model, so that every
  result below holds whatever the host computes there.
\<close>

record library =
  interpolate :: "Quaternion \<Rightarrow> Quaternion \<Rightarrow> real \<Rightarrow> Quaternion"
  Math_exp :: "real \<Rightarrow> real"

text \<open>
  \<open>this.slerp(qb, t)\<close> returns the receiver untouched for \<open>t = 0\<close> and a copy of \<open>qb\<close>
  for \<open>t = 1\<close>; it never writes to \<open>qb\<close>.
\<close>

definition slerp :: "library \<Rightarrow> Quaternion \<Rightarrow> Quaternion \<Rightarrow> real \<Rightarrow> Quaternion" where
  "slerp lib this qb t =
     (if t = 0 then this else if t = 1 then qb else interpolate lib this qb t)"

section \<open>Binary64 rounding\<close>

text \<open>
  A binary64 value has 53 significant bits; below \<open>2^-1022\<close> the spacing stays that of the
  smallest normal binade (gradual underflow). \<open>fl64\<close> rounds a real to the nearest such
  value, ties to the even significand, as every binary64 operation does with its exact
  result. The exponent is not bounded above: overflow to infinity is not represented.
  \<open>round_down64\<close> and \<open>round_up64\<close> are the neighbours of a real on the same grid.
\<close>

definition round_even :: "real \<Rightarrow> int" where
  "round_even t =
     (let n = \<lfloor>t\<rfloor>; r = t - of_int n
      in if r < 1 / 2 then n else if 1 / 2 < r then n + 1 else if even n then n else n + 1)"

definition exponent64 :: "real \<Rightarrow> int" where
  "exponent64 x = max \<lfloor>log 2 \<bar>x\<bar>\<rfloor> (- 1022)"

definition ulp64 :: "real \<Rightarrow> real" where
  "ulp64 x = 2 powr of_int (exponent64 x - 52)"

definition fl64 :: "real \<Rightarrow> real" where
  "fl64 x = sgn x * (of_int (round_even (\<bar>x\<bar> / ulp64 x)) * ulp64 x)"




section \<open>Props, assets and component state\<close>

text \<open>
  An array passed as a prop is a JavaScript object: hooks compare dependencies by
  identity (\<open>Object.is\<close>), not by contents. \<open>Obj a v\<close> is the array at address \<open>a\<close> with
  contents \<open>v\<close>.
\<close>

datatype 'a obj = Obj (addr: nat) (val: 'a)

text \<open>\<open>imageScale?: number | [number, number]\<close>\<close>

datatype image_scale = Uniform real | PerAxis real real

text \<open>
  The props of \<open>BirthdayLove\<close>. \<open>id\<close> and \<open>image\<close> are suffixed because the names are
  taken in HOL. Optional props are options. Of the pass-through group props, which
  are spread onto the outer \<open>group\<close> element after \<open>ref={groupRef}\<close>, only the presence of
  a \<open>ref\<close> of the owner matters to the logic: \<open>groupProps_ref\<close> says that there is one.
  \<open>children\<close> and the other pass-through props are left out.
\<close>

record props =
  id_p :: string
  image_p :: string
  imageScale :: "image_scale option"
  imageOffset :: "(real \<times> real \<times> real) option"
  imageInset :: "real option"
  tablePosition :: "(real \<times> real \<times> real) obj"
  tableRotation :: "(real \<times> real \<times> real) obj"
  isActive :: bool
  groupProps_ref :: bool

text \<open>
  What the loaders hand to the component: the size and the centre of the bounding box
  of the cloned frame model (\<open>box.getSize\<close>, \<open>box.getCenter\<close>).
\<close>

record asset =
  frameSize :: Vector3
  frameCenter :: Vector3

text \<open>The camera as the frame callback reads it: \<open>camera.position\<close> and the result of
  \<open>camera.getWorldDirection\<close>.\<close>

record camera =
  cam_position :: Vector3
  worldDirection :: Vector3

text \<open>The scene node that the outer \<open>group\<close> element creates.\<close>

record Group =
  position :: Vector3
  quaternion :: Quaternion

text \<open>
  The state of one mounted instance: the props of its latest render, the scene node
  and whether it is attached to \<open>groupRef\<close>, the \<open>useState\<close> cell and the values held by
  \<open>useMemo\<close> (the two table values and the scratch objects that the frame callback
  overwrites).
\<close>

record state =
  props_of :: props
  node :: Group
  attached :: bool
  isHovered :: bool
  defaultPosition :: Vector3
  defaultQuaternion :: Quaternion
  tmpPosition :: Vector3
  tmpQuaternion :: Quaternion
  tmpDirection :: Vector3

text \<open>\<open>groupRef.current\<close>: the scene node when it is attached to the ref, null otherwise.\<close>

definition groupRef :: "state \<Rightarrow> Group option" where
  "groupRef s = (if attached s then Some (node s) else None)"

definition DEFAULT_IMAGE_SCALE :: "real \<times> real" where
  "DEFAULT_IMAGE_SCALE = (0.82, 0.82)"

definition CAMERA_DISTANCE :: real where
  "CAMERA_DISTANCE = 1.5"

definition CAMERA_Y_FLOOR :: real where
  "CAMERA_Y_FLOOR = 0.8"

definition HOVER_LIFT :: real where
  "HOVER_LIFT = 0.05"

definition cameraOffset :: Vector3 where
  "cameraOffset = \<lparr>vx = 0, vy = - 0.05, vz = 0\<rparr>"

section \<open>Layout of the image plane\<close>

text \<open>
  \<open>scaledImage\<close>: the default parameter applies when the prop is absent; an array is
  returned as it is, a number is used for both axes.
\<close>

definition scaledImage :: "props \<Rightarrow> real \<times> real" where
  "scaledImage p =
     (case imageScale p of
        None \<Rightarrow> DEFAULT_IMAGE_SCALE
      | Some (PerAxis sx sy) \<Rightarrow> (sx, sy)
      | Some (Uniform k) \<Rightarrow> (k, k))"

definition imageWidth :: "asset \<Rightarrow> props \<Rightarrow> real" where
  "imageWidth a p = vx (frameSize a) * fst (scaledImage p)"

definition imageHeight :: "asset \<Rightarrow> props \<Rightarrow> real" where
  "imageHeight a p = vy (frameSize a) * snd (scaledImage p)"

definition imagePosition :: "asset \<Rightarrow> props \<Rightarrow> real \<times> real \<times> real" where
  "imagePosition a p =
     (case (case imageOffset p of None \<Rightarrow> (0, 0.05, - 0.27) | Some off \<Rightarrow> off) of
        (offsetX, offsetY, offsetZ) \<Rightarrow>
          (vx (frameCenter a) + offsetX, vy (frameCenter a) + offsetY,
           vz (frameCenter a) + offsetZ))"

text \<open>
  What one render returns and asks of the host: the cursor flag given to \<open>useCursor\<close>,
  the texture of the material, and the geometry of the returned tree.
\<close>

record rendered =
  cursor_pointer :: bool
  material_map :: string
  inner_rotation :: "real \<times> real \<times> real"
  mesh_position :: "real \<times> real \<times> real"
  mesh_rotation :: "real \<times> real \<times> real"
  plane_args :: "real \<times> real"

definition render :: "asset \<Rightarrow> props \<Rightarrow> bool \<Rightarrow> rendered" where
  "render a p hovered =
     \<lparr>cursor_pointer = (hovered \<or> isActive p),
      material_map = image_p p,
      inner_rotation = (0.04, 0, 0),
      mesh_position = imagePosition a p,
      mesh_rotation = (0.435, pi, 0),
      plane_args = (imageWidth a p, imageHeight a p)\<rparr>"

section \<open>Effects, frame callback and event handlers\<close>

text \<open>
  The first effect copies the table pose into the scene node (and does nothing while
  the ref is empty); the second clears the hover flag when the component is not
  active.
\<close>

definition effect_snap :: "state \<Rightarrow> state" where
  "effect_snap s =
     (case groupRef s of
        None \<Rightarrow> s
      | Some grp \<Rightarrow>
          s\<lparr>node := grp\<lparr>position := defaultPosition s,
                            quaternion := defaultQuaternion s\<rparr>\<rparr>)"

definition effect_hover :: "state \<Rightarrow> state" where
  "effect_hover s = (if \<not> isActive (props_of s) then s\<lparr>isHovered := False\<rparr> else s)"

text \<open>
  Mounting: the first render fills the state cell and the memo cells, the commit
  creates the scene node and attaches it to the ref of the element, then both effects
  run in source order. The element's ref is \<open>groupRef\<close> unless the spread pass-through
  props carry a ref of the owner, which then replaces it and leaves \<open>groupRef\<close> empty.
\<close>

definition mount :: "props \<Rightarrow> state" where
  "mount p =
     effect_hover (effect_snap
       \<lparr>props_of = p,
        node = \<lparr>position = new_Vector3, quaternion = new_Quaternion\<rparr>,
        attached = (\<not> groupProps_ref p),
        isHovered = False,
        defaultPosition = Vector3_of (val (tablePosition p)),
        defaultQuaternion = setFromEuler (val (tableRotation p)),
        tmpPosition = new_Vector3,
        tmpQuaternion = new_Quaternion,
        tmpDirection = new_Vector3\<rparr>)"

text \<open>
  A render with new props from the owner. \<open>useMemo\<close> recomputes a table value when its
  dependency is another object than at the previous render; the commit attaches the
  node to \<open>groupRef\<close> or detaches it, as the pass-through props now have it; then an
  effect runs when one of its dependencies changed (the memo results by identity,
  \<open>isActive\<close> by value).
\<close>

definition rerender :: "props \<Rightarrow> state \<Rightarrow> state" where
  "rerender p' s =
     (let positionChanged = (addr (tablePosition p') \<noteq> addr (tablePosition (props_of s)));
          rotationChanged = (addr (tableRotation p') \<noteq> addr (tableRotation (props_of s)));
          activeChanged = (isActive p' \<noteq> isActive (props_of s));
          s1 = s\<lparr>props_of := p',
                 attached := (\<not> groupProps_ref p'),
                 defaultPosition :=
                   (if positionChanged then Vector3_of (val (tablePosition p'))
                    else defaultPosition s),
                 defaultQuaternion :=
                   (if rotationChanged then setFromEuler (val (tableRotation p'))
                    else defaultQuaternion s)\<rparr>;
          s2 = (if positionChanged \<or> rotationChanged then effect_snap s1 else s1)
      in if activeChanged then effect_hover s2 else s2)"

text \<open>
  \<open>1 - Math.exp(-delta * 12)\<close> and \<open>1 - Math.exp(-delta * 10)\<close>: the product and the
  difference are binary64 operations, the negation is exact.
\<close>

definition lerpAlpha :: "library \<Rightarrow> real \<Rightarrow> real" where
  "lerpAlpha lib delta = fl64 (1 - Math_exp lib (fl64 (- delta * 12)))"

definition slerpAlpha :: "library \<Rightarrow> real \<Rightarrow> real" where
  "slerpAlpha lib delta = fl64 (1 - Math_exp lib (fl64 (- delta * 10)))"

text \<open>
  The targets of one tick. In the active branch only \<open>tmpPosition\<close> (and the scratch
  direction) is written; in the other branch \<open>tmpPosition\<close> and \<open>tmpQuaternion\<close>.
\<close>

definition setTargets :: "camera \<Rightarrow> state \<Rightarrow> state" where
  "setTargets cam s =
     (if isActive (props_of s) then
        (let direction = multiplyScalar (worldDirection cam) CAMERA_DISTANCE;
             t = add (add (cam_position cam) direction) cameraOffset
         in s\<lparr>tmpPosition := (if vy t < CAMERA_Y_FLOOR then t\<lparr>vy := CAMERA_Y_FLOOR\<rparr> else t),
              tmpDirection := direction\<rparr>)
      else
        (let t = defaultPosition s
         in s\<lparr>tmpPosition := (if isHovered s then t\<lparr>vy := vy t + HOVER_LIFT\<rparr> else t),
              tmpQuaternion := defaultQuaternion s\<rparr>))"

text \<open>The callback given to \<open>useFrame\<close>; it returns at once while the ref is empty.\<close>

definition frameCallback :: "library \<Rightarrow> camera \<Rightarrow> real \<Rightarrow> state \<Rightarrow> state" where
  "frameCallback lib cam delta s =
     (case groupRef s of
        None \<Rightarrow> s
      | Some grp \<Rightarrow>
          (let s1 = setTargets cam s
           in s1\<lparr>node :=
                  grp\<lparr>position :=
                        lerp (position grp) (tmpPosition s1) (lerpAlpha lib delta),
                        quaternion :=
                          slerp lib (quaternion grp) (tmpQuaternion s1)
                            (slerpAlpha lib delta)\<rparr>\<rparr>))"

text \<open>
  What a handler does besides changing the state: \<open>event.stopPropagation()\<close> and the
  call of the owner's \<open>onToggle\<close> with its argument.
\<close>

datatype action = StopPropagation | OnToggle string

definition handlePointerOver :: "state \<Rightarrow> state \<times> action list" where
  "handlePointerOver s =
     ((if \<not> isActive (props_of s) then s\<lparr>isHovered := True\<rparr> else s), [StopPropagation])"

definition handlePointerOut :: "state \<Rightarrow> state \<times> action list" where
  "handlePointerOut s = (s\<lparr>isHovered := False\<rparr>, [StopPropagation])"

definition handlePointerDown :: "state \<Rightarrow> state \<times> action list" where
  "handlePointerDown s = (s, [StopPropagation])"

definition handleClick :: "state \<Rightarrow> state \<times> action list" where
  "handleClick s = (s, [StopPropagation, OnToggle (id_p (props_of s))])"

section \<open>The component as a transition system\<close>

text \<open>
  After mounting, the host drives the instance: the owner renders it with new props,
  the render loop ticks, pointer events arrive on the image mesh.
\<close>

datatype event =
  Rerender props
  | Frame camera real
  | PointerOver
  | PointerOut
  | PointerDown
  | Click

fun step :: "library \<Rightarrow> event \<Rightarrow> state \<Rightarrow> state \<times> action list" where
  "step lib (Rerender p') s = (rerender p' s, [])"
| "step lib (Frame cam delta) s = (frameCallback lib cam delta s, [])"
| "step lib PointerOver s = handlePointerOver s"
| "step lib PointerOut s = handlePointerOut s"
| "step lib PointerDown s = handlePointerDown s"
| "step lib Click s = handleClick s"

definition exec :: "library \<Rightarrow> props \<Rightarrow> event list \<Rightarrow> state" where
  "exec lib p es = foldl (\<lambda>s e. fst (step lib e s)) (mount p) es"

fun emitted :: "library \<Rightarrow> state \<Rightarrow> event list \<Rightarrow> action list" where
  "emitted lib s [] = []"
| "emitted lib s (e # es) = snd (step lib e s) @ emitted lib (fst (step lib e s)) es"

text \<open>
  Props are immutable values: an array that is the same object as at the previous
  render has the same contents. Renders that break this are not admitted.
\<close>

fun admissible :: "state \<Rightarrow> event \<Rightarrow> bool" where
  "admissible s (Rerender p') =
     ((addr (tablePosition p') = addr (tablePosition (props_of s))
         \<longrightarrow> val (tablePosition p') = val (tablePosition (props_of s)))
      \<and> (addr (tableRotation p') = addr (tableRotation (props_of s))
         \<longrightarrow> val (tableRotation p') = val (tableRotation (props_of s))))"
| "admissible s e = True"

inductive reachable :: "library \<Rightarrow> state \<Rightarrow> bool" for lib :: library where
  reachable_mount: "reachable lib (mount p)"
| reachable_step: "reachable lib s \<Longrightarrow> admissible s e \<Longrightarrow> reachable lib (fst (step lib e s))"

text \<open>
  The third effect of the source only releases the material when it is replaced or
  the component goes away; it touches nothing of the state above.
\<close>

section \<open>Histories\<close>

text \<open>
  Two observers of a history of events, used to state when the hover flag can be set
  and where the orientation target comes from.

  \<open>watch\<close> follows the active flag through the renders and remembers whether a
  pointer-over has arrived since the flag last turned from true to false (or since
  mounting).
\<close>

fun watch :: "bool \<times> bool \<Rightarrow> event \<Rightarrow> bool \<times> bool" where
  "watch (active, seen) (Rerender p') =
     (isActive p', (if active \<and> \<not> isActive p' then False else seen))"
| "watch (active, seen) PointerOver = (active, True)"
| "watch (active, seen) e = (active, seen)"

definition over_since_inactive :: "props \<Rightarrow> event list \<Rightarrow> bool" where
  "over_since_inactive p es = snd (foldl watch (isActive p, False) es)"

text \<open>
  \<open>log_write\<close> runs the component and records, at each tick that takes the inactive
  branch, the quaternion which that branch copies into the orientation target.
\<close>

definition log_write ::
  "library \<Rightarrow> state \<times> Quaternion option \<Rightarrow> event \<Rightarrow> state \<times> Quaternion option" where
  "log_write lib sw e =
     (fst (step lib e (fst sw)),
      (case e of
         Frame cam delta \<Rightarrow>
           (if groupRef (fst sw) \<noteq> None \<and> \<not> isActive (props_of (fst sw))
            then Some (defaultQuaternion (fst sw)) else snd sw)
       | _ \<Rightarrow> snd sw))"

definition last_inactive_write ::
  "library \<Rightarrow> props \<Rightarrow> event list \<Rightarrow> Quaternion option" where
  "last_inactive_write lib p es = snd (foldl (log_write lib) (mount p, None) es)"

text \<open>The memo cells agree with the props of the latest render.\<close>

definition memo_ok :: "state \<Rightarrow> bool" where
  "memo_ok s \<longleftrightarrow>
     defaultPosition s = Vector3_of (val (tablePosition (props_of s)))
     \<and> defaultQuaternion s = setFromEuler (val (tableRotation (props_of s)))"

text \<open>Forgetting the \<open>imageInset\<close> prop: in props, in a state and in an event.\<close>

definition drop_inset :: "props \<Rightarrow> props" where
  "drop_inset p = p\<lparr>imageInset := None\<rparr>"

definition state_sans_inset :: "state \<Rightarrow> state" where
  "state_sans_inset s = s\<lparr>props_of := drop_inset (props_of s)\<rparr>"

fun event_sans_inset :: "event \<Rightarrow> event" where
  "event_sans_inset (Rerender p') = Rerender (drop_inset p')"
| "event_sans_inset e = e"

section \<open>Example inputs\<close>

definition example_asset :: asset where
  "example_asset =
     \<lparr>frameSize = \<lparr>vx = 2, vy = 3, vz = 1\<rparr>, frameCenter = \<lparr>vx = 1, vy = 1, vz = 1\<rparr>\<rparr>"

definition example_props :: props where
  "example_props =
     \<lparr>id_p = ''love-1'', image_p = ''/a.jpg'', imageScale = None, imageOffset = None,
      imageInset = None, tablePosition = Obj 1 (1, 0, 2), tableRotation = Obj 2 (pi, 0, 0),
      isActive = False, groupProps_ref = False\<rparr>"

definition active_props :: props where
  "active_props = example_props\<lparr>isActive := True\<rparr>"

text \<open>The same props from an owner that passes a ref of its own to the group.\<close>

definition ref_props :: props where
  "ref_props = example_props\<lparr>groupProps_ref := True\<rparr>"

text \<open>A camera at height 1 looking down the negative z axis, and one below the floor.\<close>

definition example_camera :: camera where
  "example_camera =
     \<lparr>cam_position = \<lparr>vx = 0, vy = 1, vz = 0\<rparr>, worldDirection = \<lparr>vx = 0, vy = 0, vz = - 1\<rparr>\<rparr>"

definition low_camera :: camera where
  "low_camera =
     \<lparr>cam_position = \<lparr>vx = 0, vy = 0.5, vz = 0\<rparr>, worldDirection = \<lparr>vx = 0, vy = 0, vz = - 1\<rparr>\<rparr>"

text \<open>A host whose \<open>Math.exp\<close> is the correctly rounded exponential.\<close>

definition example_library :: library where
  "example_library = \<lparr>interpolate = (\<lambda>this qb t. qb), Math_exp = (\<lambda>x. fl64 (exp x))\<rparr>"

section \<open>Invariants of the reachable states\<close>

lemma memo_ok_mount: "memo_ok (mount p)"
  by (simp add: memo_ok_def mount_def effect_snap_def effect_hover_def groupRef_def)

lemma memo_ok_step: "memo_ok s \<Longrightarrow> admissible s e \<Longrightarrow> memo_ok (fst (step lib e s))"
  by (cases e)
    (auto simp: memo_ok_def rerender_def effect_snap_def effect_hover_def Let_def
      frameCallback_def setTargets_def handlePointerOver_def handlePointerOut_def
      handlePointerDown_def handleClick_def groupRef_def split: option.splits)

lemma reachable_memo_ok: "reachable lib s \<Longrightarrow> memo_ok s"
  by (induction rule: reachable.induct) (simp_all add: memo_ok_mount memo_ok_step)

lemma exec_snoc: "exec lib p (es @ [e]) = fst (step lib e (exec lib p es))"
  by (simp add: exec_def)

lemma exec_Nil: "exec lib p [] = mount p"
  by (simp add: exec_def)

lemma mount_fields:
  "props_of (mount p) = p"
  "isHovered (mount p) = False"
  "tmpQuaternion (mount p) = new_Quaternion"
  "attached (mount p) = (\<not> groupProps_ref p)"
  "groupRef (mount p) =
     (if groupProps_ref p then None
      else Some \<lparr>position = Vector3_of (val (tablePosition p)),
                 quaternion = setFromEuler (val (tableRotation p))\<rparr>)"
  "node (mount p) =
     (if groupProps_ref p then \<lparr>position = new_Vector3, quaternion = new_Quaternion\<rparr>
      else \<lparr>position = Vector3_of (val (tablePosition p)),
            quaternion = setFromEuler (val (tableRotation p))\<rparr>)"
  by (simp_all add: mount_def effect_snap_def effect_hover_def groupRef_def)

lemma handlePointerOver_fields:
  "props_of (fst (handlePointerOver s)) = props_of s"
  "isHovered (fst (handlePointerOver s)) = (\<not> isActive (props_of s) \<or> isHovered s)"
  "groupRef (fst (handlePointerOver s)) = groupRef s"
  by (simp_all add: handlePointerOver_def groupRef_def)

section \<open>The targets of a tick\<close>

text \<open>
  C1. At every tick that finds the scene node in its ref (as it does in a mounted
  component, unless the owner took the ref) and whose active flag is true, the position
  target is the camera position plus 1.5 times the camera's forward direction plus
  (0, -0.05, 0), with its y raised to exactly 0.8 when the sum's y is below 0.8; the
  target's y is never below 0.8.
\<close>

theorem active_target_position:
  assumes "groupRef s \<noteq> None" and "isActive (props_of s)"
  shows "let t = \<lparr>vx = vx (cam_position cam) + vx (worldDirection cam) * 1.5 + 0,
                  vy = vy (cam_position cam) + vy (worldDirection cam) * 1.5 + (- 0.05),
                  vz = vz (cam_position cam) + vz (worldDirection cam) * 1.5 + 0\<rparr>;
             target = tmpPosition (frameCallback lib cam delta s)
         in target = (if vy t < 0.8 then t\<lparr>vy := 0.8\<rparr> else t)
            \<and> 0.8 \<le> vy target
            \<and> (vy t < 0.8 \<longrightarrow> vy target = 0.8)"
proof -
  from assms(1) obtain grp where "groupRef s = Some grp" by blast
  with assms(2) show ?thesis
    by (simp add: frameCallback_def setTargets_def Let_def add_def multiplyScalar_def
        cameraOffset_def CAMERA_DISTANCE_def CAMERA_Y_FLOOR_def)
qed

theorem active_target_position_witness:
  "groupRef (mount active_props) \<noteq> None \<and> isActive (props_of (mount active_props))
   \<and> reachable example_library (mount active_props)
   \<and> tmpPosition (frameCallback example_library example_camera (1 / 60) (mount active_props))
       = \<lparr>vx = 0, vy = 0.95, vz = - 1.5\<rparr>
   \<and> tmpPosition (frameCallback example_library low_camera (1 / 60) (mount active_props))
       = \<lparr>vx = 0, vy = 0.8, vz = - 1.5\<rparr>"
proof -
  have r: "reachable example_library (mount active_props)" by (rule reachable_mount)
  have g: "groupRef (mount active_props) \<noteq> None"
    by (simp add: mount_fields active_props_def example_props_def)
  have a: "isActive (props_of (mount active_props))"
    by (simp add: mount_fields active_props_def)
  from active_target_position [OF g a, of example_camera example_library "1 / 60"]
    active_target_position [OF g a, of low_camera example_library "1 / 60"] r g a
  show ?thesis by (simp add: Let_def example_camera_def low_camera_def)
qed

text \<open>
  C2. At every tick of a mounted component that finds the scene node in its ref and
  whose active flag is false, the position target is the table position, lifted by
  0.05 along y when hovered and exactly the table position otherwise, and the
  orientation target is the quaternion of the configured table rotation.
\<close>

theorem inactive_target_pose:
  assumes "reachable lib s" and "groupRef s \<noteq> None" and "\<not> isActive (props_of s)"
  shows "tmpPosition (frameCallback lib cam delta s) =
           (case val (tablePosition (props_of s)) of
              (a, b, c) \<Rightarrow> \<lparr>vx = a, vy = (if isHovered s then b + 0.05 else b), vz = c\<rparr>)
         \<and> tmpQuaternion (frameCallback lib cam delta s) =
             setFromEuler (val (tableRotation (props_of s)))"
proof -
  from assms(1) have m: "memo_ok s" by (rule reachable_memo_ok)
  from assms(2) obtain grp where "groupRef s = Some grp" by blast
  with m assms(3) show ?thesis
    by (cases "val (tablePosition (props_of s))")
      (simp add: memo_ok_def frameCallback_def setTargets_def Let_def HOVER_LIFT_def)
qed

theorem inactive_target_pose_witness:
  "reachable example_library (mount example_props)
   \<and> groupRef (mount example_props) \<noteq> None
   \<and> \<not> isActive (props_of (mount example_props))
   \<and> tmpPosition (frameCallback example_library example_camera (1 / 60) (mount example_props))
       = \<lparr>vx = 1, vy = 0, vz = 2\<rparr>
   \<and> tmpQuaternion (frameCallback example_library example_camera (1 / 60) (mount example_props))
       = \<lparr>qx = 1, qy = 0, qz = 0, qw = 0\<rparr>
   \<and> reachable example_library (fst (step example_library PointerOver (mount example_props)))
   \<and> tmpPosition (frameCallback example_library example_camera (1 / 60)
        (fst (step example_library PointerOver (mount example_props))))
       = \<lparr>vx = 1, vy = 0.05, vz = 2\<rparr>"
proof -
  have r: "reachable example_library (mount example_props)" by (rule reachable_mount)
  have g: "groupRef (mount example_props) \<noteq> None"
    by (simp add: mount_fields example_props_def)
  have a: "\<not> isActive (props_of (mount example_props))"
    by (simp add: mount_fields example_props_def)
  have r': "reachable example_library (fst (step example_library PointerOver (mount example_props)))"
    by (rule reachable_step [OF r]) simp
  have g': "groupRef (fst (step example_library PointerOver (mount example_props))) \<noteq> None"
    by (simp add: handlePointerOver_fields mount_fields example_props_def)
  have a': "\<not> isActive (props_of (fst (step example_library PointerOver (mount example_props))))"
    by (simp add: handlePointerOver_fields mount_fields example_props_def)
  from inactive_target_pose [OF r g a, of example_camera "1 / 60"]
    inactive_target_pose [OF r' g' a', of example_camera "1 / 60"] r g a r'
  show ?thesis by (simp add: handlePointerOver_fields mount_fields example_props_def)
qed

section \<open>Properties of binary64 rounding\<close>


lemma round_even_bounds: "\<lfloor>t\<rfloor> \<le> round_even t" "round_even t \<le> \<lceil>t\<rceil>"
proof -
  show "\<lfloor>t\<rfloor> \<le> round_even t" by (simp add: round_even_def Let_def)
  show "round_even t \<le> \<lceil>t\<rceil>"
  proof (cases "t = of_int \<lfloor>t\<rfloor>")
    case True
    then show ?thesis by (simp add: round_even_def Let_def)
  next
    case False
    then have "\<lceil>t\<rceil> = \<lfloor>t\<rfloor> + 1" by (metis ceiling_altdef)
    then show ?thesis by (simp add: round_even_def Let_def)
  qed
qed


lemma round_even_le: "t \<le> of_int n \<Longrightarrow> round_even t \<le> n"
  using round_even_bounds(2) [of t] by (meson ceiling_le order_trans)









lemma two_powr_int_mult: "2 powr of_int a * 2 powr of_int b = (2::real) powr of_int (a + b)"
  by (simp add: powr_add)
















section \<open>Smoothing factors\<close>














section \<open>Layout\<close>

text \<open>
  C5. The image plane's width is the bounding-box size x times the x scale and its
  height the size y times the y scale; a scalar \<open>imageScale\<close> is used for both axes
  and an absent one means (0.82, 0.82). The plane's position is the bounding-box
  centre plus the offset, which is (0, 0.05, -0.27) when absent. These are the values
  the render passes to the plane geometry and to the mesh.
\<close>

theorem layout_image_plane:
  "(imageScale p = None \<longrightarrow>
      imageWidth a p = vx (frameSize a) * 0.82 \<and> imageHeight a p = vy (frameSize a) * 0.82)
   \<and> (imageScale p = Some (Uniform k) \<longrightarrow>
      imageWidth a p = vx (frameSize a) * k \<and> imageHeight a p = vy (frameSize a) * k)
   \<and> (imageScale p = Some (PerAxis sx sy) \<longrightarrow>
      imageWidth a p = vx (frameSize a) * sx \<and> imageHeight a p = vy (frameSize a) * sy)
   \<and> (imageOffset p = None \<longrightarrow>
      imagePosition a p =
        (vx (frameCenter a) + 0, vy (frameCenter a) + 0.05, vz (frameCenter a) + (- 0.27)))
   \<and> (imageOffset p = Some (ox, oy, oz) \<longrightarrow>
      imagePosition a p =
        (vx (frameCenter a) + ox, vy (frameCenter a) + oy, vz (frameCenter a) + oz))
   \<and> plane_args (render a p h) = (imageWidth a p, imageHeight a p)
   \<and> mesh_position (render a p h) = imagePosition a p"
  by (simp add: imageWidth_def imageHeight_def imagePosition_def scaledImage_def
      DEFAULT_IMAGE_SCALE_def render_def)

theorem layout_image_plane_witness:
  "imageScale example_props = None \<and> imageOffset example_props = None
   \<and> imageWidth example_asset example_props = 1.64
   \<and> imageHeight example_asset example_props = 2.46
   \<and> imagePosition example_asset example_props = (1, 1.05, 0.73)
   \<and> imageWidth example_asset (example_props\<lparr>imageScale := Some (Uniform 2)\<rparr>) = 4
   \<and> imageHeight example_asset (example_props\<lparr>imageScale := Some (PerAxis 2 3)\<rparr>) = 9
   \<and> imagePosition example_asset (example_props\<lparr>imageOffset := Some (1, 2, 3)\<rparr>) = (2, 3, 4)"
  using layout_image_plane [of example_props example_asset 0 0 0 0 0 0 False]
    layout_image_plane
      [of "example_props\<lparr>imageScale := Some (Uniform 2)\<rparr>" example_asset 2 0 0 0 0 0 False]
    layout_image_plane
      [of "example_props\<lparr>imageScale := Some (PerAxis 2 3)\<rparr>" example_asset 0 2 3 0 0 0 False]
    layout_image_plane
      [of "example_props\<lparr>imageOffset := Some (1, 2, 3)\<rparr>" example_asset 0 0 0 1 2 3 False]
  by (simp add: example_props_def example_asset_def)

section \<open>Hover and activation\<close>

text \<open>
  C6. When a render turns the active flag from true to false, hovered is false
  afterwards, whatever it was before (in particular when it was true).
\<close>

theorem deactivation_clears_hover:
  assumes "isActive (props_of s)" and "\<not> isActive p'"
  shows "\<not> isHovered (fst (step lib (Rerender p') s))"
  using assms
  by (simp add: rerender_def Let_def effect_hover_def effect_snap_def groupRef_def split: option.splits)

theorem deactivation_clears_hover_witness:
  "isHovered (exec example_library example_props [PointerOver, Rerender active_props])
   \<and> isActive (props_of (exec example_library example_props [PointerOver, Rerender active_props]))
   \<and> \<not> isActive example_props
   \<and> \<not> isHovered (fst (step example_library (Rerender example_props)
          (exec example_library example_props [PointerOver, Rerender active_props])))"
proof -
  have h: "isHovered (exec example_library example_props [PointerOver, Rerender active_props])"
    and a: "isActive (props_of
              (exec example_library example_props [PointerOver, Rerender active_props]))"
    by (simp_all add: exec_def mount_def effect_snap_def groupRef_def effect_hover_def
        handlePointerOver_def rerender_def Let_def example_props_def active_props_def)
  have i: "\<not> isActive example_props" by (simp add: example_props_def)
  from deactivation_clears_hover [OF a i, of example_library] h a i show ?thesis by blast
qed

lemma watch_invariant:
  "fst (foldl watch (isActive p, False) es) = isActive (props_of (exec lib p es))
   \<and> (\<not> isActive (props_of (exec lib p es)) \<and> \<not> snd (foldl watch (isActive p, False) es)
        \<longrightarrow> \<not> isHovered (exec lib p es))"
proof (induction es rule: rev_induct)
  case Nil
  show ?case by (simp add: exec_Nil mount_fields)
next
  case (snoc e es)
  obtain active seen where w: "foldl watch (isActive p, False) es = (active, seen)"
    by (cases "foldl watch (isActive p, False) es")
  with snoc show ?case
    by (cases e)
      (auto simp: exec_snoc rerender_def effect_snap_def groupRef_def effect_hover_def Let_def
        frameCallback_def setTargets_def handlePointerOver_def handlePointerOut_def
        handlePointerDown_def handleClick_def split: option.splits)
qed

text \<open>
  C7, as amended. In every state reached from mounting, when the active flag is false
  and no pointer-over has been handled since the flag last turned from true to false
  (or since mounting), hovered is false.
\<close>

theorem inactive_hover_needs_pointer_over:
  assumes "\<not> isActive (props_of (exec lib p es))" and "\<not> over_since_inactive p es"
  shows "\<not> isHovered (exec lib p es)"
  using assms watch_invariant [of p es lib] by (simp add: over_since_inactive_def)

theorem inactive_hover_needs_pointer_over_witness:
  "\<not> isActive (props_of (exec example_library example_props
        [PointerOver, Rerender active_props, Rerender example_props]))
   \<and> \<not> over_since_inactive example_props
        [PointerOver, Rerender active_props, Rerender example_props]
   \<and> \<not> isHovered (exec example_library example_props
        [PointerOver, Rerender active_props, Rerender example_props])"
proof -
  have a: "\<not> isActive (props_of (exec example_library example_props
        [PointerOver, Rerender active_props, Rerender example_props]))"
    by (simp add: exec_def mount_def effect_snap_def groupRef_def effect_hover_def
        handlePointerOver_def rerender_def Let_def example_props_def active_props_def)
  have b: "\<not> over_since_inactive example_props
        [PointerOver, Rerender active_props, Rerender example_props]"
    by (simp add: over_since_inactive_def example_props_def active_props_def)
  from inactive_hover_needs_pointer_over [OF a b] a b show ?thesis by blast
qed

text \<open>
  The claim without the amendment fails: after mounting inactive, one pointer-over
  gives a reachable state that is inactive and hovered.
\<close>

theorem inactive_hover_counterexample:
  "reachable example_library (fst (step example_library PointerOver (mount example_props)))
   \<and> \<not> isActive (props_of (fst (step example_library PointerOver (mount example_props))))
   \<and> isHovered (fst (step example_library PointerOver (mount example_props)))"
proof -
  have "reachable example_library (fst (step example_library PointerOver (mount example_props)))"
    by (rule reachable_step [OF reachable_mount]) simp
  then show ?thesis
    by (simp add: handlePointerOver_fields mount_fields example_props_def)
qed

section \<open>Click and pointer-press\<close>

text \<open>
  C8. The click handler stops propagation and calls the owner's toggle callback with
  the component's identifier, and changes no state; the pointer-press handler stops
  propagation and changes no state. No event other than a render by the owner changes
  the active flag, and a render takes the owner's value as it is.
\<close>

theorem click_and_press:
  "step lib Click s = (s, [StopPropagation, OnToggle (id_p (props_of s))])
   \<and> step lib PointerDown s = (s, [StopPropagation])
   \<and> ((\<forall>p'. e \<noteq> Rerender p') \<longrightarrow>
         isActive (props_of (fst (step lib e s))) = isActive (props_of s))
   \<and> isActive (props_of (fst (step lib (Rerender p) s))) = isActive p"
proof -
  have "isActive (props_of (fst (step lib e s))) = isActive (props_of s)"
    if "\<forall>p'. e \<noteq> Rerender p'"
    using that
    by (cases e)
      (simp_all add: frameCallback_def groupRef_def setTargets_def Let_def handlePointerOver_def
        handlePointerOut_def handlePointerDown_def handleClick_def split: option.splits)
  moreover have "isActive (props_of (fst (step lib (Rerender p) s))) = isActive p"
    by (simp add: rerender_def Let_def effect_snap_def groupRef_def effect_hover_def split: option.splits)
  ultimately show ?thesis by (simp add: handleClick_def handlePointerDown_def)
qed

theorem click_and_press_witness:
  "(\<forall>p'. PointerOver \<noteq> Rerender p')
   \<and> step example_library Click (mount example_props)
       = (mount example_props, [StopPropagation, OnToggle ''love-1''])
   \<and> step example_library PointerDown (mount example_props)
       = (mount example_props, [StopPropagation])
   \<and> isActive (props_of (fst (step example_library PointerOver (mount example_props))))
       = isActive (props_of (mount example_props))"
  using click_and_press [of example_library "mount example_props" PointerOver example_props]
  by (simp add: mount_fields example_props_def)

section \<open>Snapping to the table pose\<close>

text \<open>
  C10, as amended. Provided the owner passes no ref of its own among the pass-through
  group props, so that the scene node is attached to the component's ref: on mounting,
  and at every render in which \<open>tablePosition\<close> or \<open>tableRotation\<close> is a new array, the
  scene node's position and orientation are set in that one step to the table position
  and to the quaternion of the table rotation, with no blending.
\<close>

theorem table_pose_snap:
  "(\<not> groupProps_ref p \<longrightarrow>
      groupRef (mount p) =
        Some \<lparr>position = Vector3_of (val (tablePosition p)),
              quaternion = setFromEuler (val (tableRotation p))\<rparr>
      \<and> node (mount p) =
          \<lparr>position = Vector3_of (val (tablePosition p)),
           quaternion = setFromEuler (val (tableRotation p))\<rparr>)
   \<and> (reachable lib s \<and> admissible s (Rerender p') \<and> \<not> groupProps_ref p'
        \<and> (addr (tablePosition p') \<noteq> addr (tablePosition (props_of s))
             \<or> addr (tableRotation p') \<noteq> addr (tableRotation (props_of s)))
      \<longrightarrow> groupRef (fst (step lib (Rerender p') s)) =
            Some \<lparr>position = Vector3_of (val (tablePosition p')),
                  quaternion = setFromEuler (val (tableRotation p'))\<rparr>
          \<and> node (fst (step lib (Rerender p') s)) =
              \<lparr>position = Vector3_of (val (tablePosition p')),
               quaternion = setFromEuler (val (tableRotation p'))\<rparr>)"
proof -
  have "groupRef (fst (step lib (Rerender p') s)) =
            Some \<lparr>position = Vector3_of (val (tablePosition p')),
                  quaternion = setFromEuler (val (tableRotation p'))\<rparr>
          \<and> node (fst (step lib (Rerender p') s)) =
              \<lparr>position = Vector3_of (val (tablePosition p')),
               quaternion = setFromEuler (val (tableRotation p'))\<rparr>"
    if r: "reachable lib s" and a: "admissible s (Rerender p')" and n: "\<not> groupProps_ref p'"
      and c: "addr (tablePosition p') \<noteq> addr (tablePosition (props_of s))
             \<or> addr (tableRotation p') \<noteq> addr (tableRotation (props_of s))"
  proof -
    from r have mo: "memo_ok s" by (rule reachable_memo_ok)
    with a n c show ?thesis
      by (auto simp: memo_ok_def rerender_def effect_snap_def groupRef_def effect_hover_def Let_def)
  qed
  then show ?thesis by (simp add: mount_fields)
qed

theorem table_pose_snap_witness:
  "\<not> groupProps_ref example_props
   \<and> reachable example_library (mount example_props)
   \<and> admissible (mount example_props) (Rerender (example_props\<lparr>tablePosition := Obj 3 (0, 1, 0)\<rparr>))
   \<and> \<not> groupProps_ref (example_props\<lparr>tablePosition := Obj 3 (0, 1, 0)\<rparr>)
   \<and> addr (tablePosition (example_props\<lparr>tablePosition := Obj 3 (0, 1, 0)\<rparr>))
       \<noteq> addr (tablePosition (props_of (mount example_props)))
   \<and> groupRef (mount example_props) =
       Some \<lparr>position = \<lparr>vx = 1, vy = 0, vz = 2\<rparr>, quaternion = \<lparr>qx = 1, qy = 0, qz = 0, qw = 0\<rparr>\<rparr>
   \<and> groupRef (fst (step example_library
        (Rerender (example_props\<lparr>tablePosition := Obj 3 (0, 1, 0)\<rparr>)) (mount example_props))) =
       Some \<lparr>position = \<lparr>vx = 0, vy = 1, vz = 0\<rparr>, quaternion = \<lparr>qx = 1, qy = 0, qz = 0, qw = 0\<rparr>\<rparr>"
proof -
  have r: "reachable example_library (mount example_props)" by (rule reachable_mount)
  have a: "admissible (mount example_props)
             (Rerender (example_props\<lparr>tablePosition := Obj 3 (0, 1, 0)\<rparr>))"
    by (simp add: mount_fields example_props_def)
  have n: "\<not> groupProps_ref example_props"
    "\<not> groupProps_ref (example_props\<lparr>tablePosition := Obj 3 (0, 1, 0)\<rparr>)"
    by (simp_all add: example_props_def)
  have c: "addr (tablePosition (example_props\<lparr>tablePosition := Obj 3 (0, 1, 0)\<rparr>))
             \<noteq> addr (tablePosition (props_of (mount example_props)))"
    by (simp add: mount_fields example_props_def)
  from table_pose_snap [of example_props example_library "mount example_props"
      "example_props\<lparr>tablePosition := Obj 3 (0, 1, 0)\<rparr>"] r a n c
  show ?thesis by (simp add: mount_fields example_props_def)
qed

text \<open>
  The claim without the proviso fails. When the owner passes a ref, the component's
  ref stays empty, the first effect returns at its guard, and the scene node is left
  with the pose it was created with: not at the table position (1, 0, 2) after
  mounting, and not at the new one after a render with a new \<open>tablePosition\<close>.
\<close>

theorem table_pose_snap_counterexample:
  "groupRef (mount ref_props) = None
   \<and> position (node (mount ref_props)) = \<lparr>vx = 0, vy = 0, vz = 0\<rparr>
   \<and> Vector3_of (val (tablePosition ref_props)) = \<lparr>vx = 1, vy = 0, vz = 2\<rparr>
   \<and> reachable example_library (mount ref_props)
   \<and> admissible (mount ref_props) (Rerender (ref_props\<lparr>tablePosition := Obj 3 (0, 1, 0)\<rparr>))
   \<and> position (node (fst (step example_library
        (Rerender (ref_props\<lparr>tablePosition := Obj 3 (0, 1, 0)\<rparr>)) (mount ref_props))))
       = \<lparr>vx = 0, vy = 0, vz = 0\<rparr>"
proof -
  have "reachable example_library (mount ref_props)" by (rule reachable_mount)
  then show ?thesis
    by (simp add: mount_def rerender_def effect_snap_def groupRef_def effect_hover_def Let_def
        ref_props_def example_props_def new_Vector3_def)
qed

section \<open>The orientation target while active\<close>

lemma log_write_state: "fst (foldl (log_write lib) (mount p, None) es) = exec lib p es"
  by (induction es rule: rev_induct) (simp_all add: exec_def log_write_def)

lemma last_inactive_write_snoc:
  "last_inactive_write lib p (es @ [e]) =
     (case e of
        Frame cam delta \<Rightarrow>
          (if groupRef (exec lib p es) \<noteq> None \<and> \<not> isActive (props_of (exec lib p es))
           then Some (defaultQuaternion (exec lib p es)) else last_inactive_write lib p es)
      | _ \<Rightarrow> last_inactive_write lib p es)"
  by (cases e) (simp_all add: last_inactive_write_def log_write_def log_write_state)

lemma step_tmpQuaternion:
  "tmpQuaternion (fst (step lib e s)) =
     (case e of
        Frame cam delta \<Rightarrow>
          (if groupRef s \<noteq> None \<and> \<not> isActive (props_of s) then defaultQuaternion s
           else tmpQuaternion s)
      | _ \<Rightarrow> tmpQuaternion s)"
  by (cases e)
    (auto simp: rerender_def effect_snap_def groupRef_def effect_hover_def Let_def frameCallback_def
      setTargets_def handlePointerOver_def handlePointerOut_def handlePointerDown_def
      handleClick_def split: option.splits)

lemma target_orientation_history:
  "tmpQuaternion (exec lib p es) =
     (case last_inactive_write lib p es of None \<Rightarrow> new_Quaternion | Some q \<Rightarrow> q)"
proof (induction es rule: rev_induct)
  case Nil
  show ?case by (simp add: exec_Nil mount_fields last_inactive_write_def)
next
  case (snoc e es)
  then show ?case
    by (simp add: exec_snoc last_inactive_write_snoc step_tmpQuaternion split: event.splits)
qed

text \<open>
  C4, as amended. A tick with the active flag true does not modify the orientation
  target: it keeps the value it held before the tick, which is the value written by
  the latest inactive-branch tick, or the identity quaternion (0, 0, 0, 1) of the
  freshly made target when no inactive-branch tick has run since mounting. Only the
  position target follows the camera.
\<close>

theorem active_tick_keeps_orientation_target:
  assumes "isActive (props_of (exec lib p es))"
  shows "tmpQuaternion (frameCallback lib cam delta (exec lib p es)) = tmpQuaternion (exec lib p es)
         \<and> tmpQuaternion (exec lib p es) =
             (case last_inactive_write lib p es of None \<Rightarrow> new_Quaternion | Some q \<Rightarrow> q)
         \<and> last_inactive_write lib p (es @ [Frame cam delta]) = last_inactive_write lib p es"
proof -
  have "tmpQuaternion (fst (step lib (Frame cam delta) (exec lib p es)))
          = tmpQuaternion (exec lib p es)"
    using assms by (simp only: step_tmpQuaternion) simp
  then have keep: "tmpQuaternion (frameCallback lib cam delta (exec lib p es))
                     = tmpQuaternion (exec lib p es)"
    by simp
  have log: "last_inactive_write lib p (es @ [Frame cam delta]) = last_inactive_write lib p es"
    using assms by (simp add: last_inactive_write_snoc)
  from keep log target_orientation_history [of lib p es] show ?thesis by simp
qed

theorem active_tick_keeps_orientation_target_witness:
  "isActive (props_of (exec example_library example_props
      [Frame example_camera (1 / 60), Rerender active_props]))
   \<and> last_inactive_write example_library example_props
        [Frame example_camera (1 / 60), Rerender active_props]
       = Some \<lparr>qx = 1, qy = 0, qz = 0, qw = 0\<rparr>
   \<and> tmpQuaternion (frameCallback example_library low_camera (1 / 30)
        (exec example_library example_props [Frame example_camera (1 / 60), Rerender active_props]))
       = \<lparr>qx = 1, qy = 0, qz = 0, qw = 0\<rparr>"
proof -
  have a: "isActive (props_of (exec example_library example_props
      [Frame example_camera (1 / 60), Rerender active_props]))"
    by (simp add: exec_def mount_def effect_snap_def groupRef_def effect_hover_def frameCallback_def
        setTargets_def rerender_def Let_def example_props_def active_props_def)
  have w: "last_inactive_write example_library example_props
        [Frame example_camera (1 / 60), Rerender active_props]
       = Some \<lparr>qx = 1, qy = 0, qz = 0, qw = 0\<rparr>"
    by (simp add: last_inactive_write_def log_write_def mount_def effect_snap_def groupRef_def
        effect_hover_def example_props_def)
  from active_tick_keeps_orientation_target [OF a, of low_camera "1 / 30"] a w
  show ?thesis by simp
qed

text \<open>
  The claim without the amendment fails for a component that is mounted active: no
  inactive-branch tick has written the orientation target, the value an active tick
  keeps is the identity quaternion, and it is not the table orientation.
\<close>

theorem orientation_target_counterexample:
  "isActive (props_of (exec example_library active_props []))
   \<and> last_inactive_write example_library active_props [] = None
   \<and> tmpQuaternion (frameCallback example_library example_camera (1 / 60)
        (exec example_library active_props [])) = \<lparr>qx = 0, qy = 0, qz = 0, qw = 1\<rparr>
   \<and> setFromEuler (val (tableRotation active_props)) = \<lparr>qx = 1, qy = 0, qz = 0, qw = 0\<rparr>"
  by (simp add: last_inactive_write_def exec_def mount_def effect_snap_def groupRef_def effect_hover_def
      frameCallback_def setTargets_def Let_def new_Quaternion_def new_Vector3_def
      active_props_def example_props_def)

section \<open>The unused \<open>imageInset\<close> prop\<close>

lemma drop_inset_eq:
  "drop_inset p = drop_inset q \<longleftrightarrow>
     id_p p = id_p q \<and> image_p p = image_p q \<and> imageScale p = imageScale q
     \<and> imageOffset p = imageOffset q \<and> tablePosition p = tablePosition q
     \<and> tableRotation p = tableRotation q \<and> isActive p = isActive q
     \<and> groupProps_ref p = groupProps_ref q"
  by (cases p, cases q) (auto simp: drop_inset_def)

lemma state_sans_inset_eq:
  "state_sans_inset s = state_sans_inset t \<longleftrightarrow>
     drop_inset (props_of s) = drop_inset (props_of t) \<and> node s = node t
     \<and> attached s = attached t
     \<and> isHovered s = isHovered t \<and> defaultPosition s = defaultPosition t
     \<and> defaultQuaternion s = defaultQuaternion t \<and> tmpPosition s = tmpPosition t
     \<and> tmpQuaternion s = tmpQuaternion t \<and> tmpDirection s = tmpDirection t"
  by (cases s, cases t) (auto simp: state_sans_inset_def)

lemma mount_sans_inset:
  "drop_inset p = drop_inset q \<Longrightarrow> state_sans_inset (mount p) = state_sans_inset (mount q)"
  by (simp add: state_sans_inset_eq drop_inset_eq mount_def effect_snap_def groupRef_def effect_hover_def)

lemma rerender_sans_inset:
  assumes "state_sans_inset s = state_sans_inset t" and "drop_inset p = drop_inset q"
  shows "state_sans_inset (rerender p s) = state_sans_inset (rerender q t)"
  using assms
  by (cases "attached t")
    (simp_all add: state_sans_inset_eq drop_inset_eq rerender_def effect_snap_def groupRef_def
      effect_hover_def Let_def)

lemma frameCallback_sans_inset:
  assumes "state_sans_inset s = state_sans_inset t"
  shows "state_sans_inset (frameCallback lib cam delta s)
           = state_sans_inset (frameCallback lib cam delta t)"
  using assms
  by (cases "attached t")
    (simp_all add: state_sans_inset_eq drop_inset_eq frameCallback_def groupRef_def setTargets_def Let_def)

lemma handlers_sans_inset:
  assumes "state_sans_inset s = state_sans_inset t"
  shows "state_sans_inset (fst (handlePointerOver s)) = state_sans_inset (fst (handlePointerOver t))"
    and "state_sans_inset (fst (handlePointerOut s)) = state_sans_inset (fst (handlePointerOut t))"
    and "state_sans_inset (fst (handlePointerDown s)) = state_sans_inset (fst (handlePointerDown t))"
    and "state_sans_inset (fst (handleClick s)) = state_sans_inset (fst (handleClick t))"
    and "snd (handlePointerOver s) = snd (handlePointerOver t)"
    and "snd (handlePointerOut s) = snd (handlePointerOut t)"
    and "snd (handlePointerDown s) = snd (handlePointerDown t)"
    and "snd (handleClick s) = snd (handleClick t)"
  using assms
  by (simp_all add: state_sans_inset_eq drop_inset_eq handlePointerOver_def
      handlePointerOut_def handlePointerDown_def handleClick_def)

lemma event_sans_inset_cases:
  assumes "event_sans_inset e = event_sans_inset f"
  obtains p q where "e = Rerender p" and "f = Rerender q" and "drop_inset p = drop_inset q"
  | "e = f"
  using assms by (cases e; cases f) simp_all

lemma step_sans_inset:
  assumes st: "state_sans_inset s = state_sans_inset t"
    and ev: "event_sans_inset e = event_sans_inset f"
  shows "state_sans_inset (fst (step lib e s)) = state_sans_inset (fst (step lib f t))
         \<and> snd (step lib e s) = snd (step lib f t)"
  using ev
proof (cases rule: event_sans_inset_cases)
  case (1 p q)
  then show ?thesis by (simp add: rerender_sans_inset [OF st])
next
  case 2
  show ?thesis
    unfolding 2
    by (cases f)
      (simp_all add: rerender_sans_inset [OF st] frameCallback_sans_inset [OF st]
        handlers_sans_inset [OF st])
qed

lemma run_sans_inset:
  assumes "state_sans_inset s = state_sans_inset t"
    and "map event_sans_inset es = map event_sans_inset fs"
  shows "state_sans_inset (foldl (\<lambda>s e. fst (step lib e s)) s es)
           = state_sans_inset (foldl (\<lambda>s e. fst (step lib e s)) t fs)
         \<and> emitted lib s es = emitted lib t fs"
  using assms
proof (induction es arbitrary: s t fs)
  case Nil
  then show ?case by simp
next
  case (Cons e es)
  then obtain f fs' where fs: "fs = f # fs'" and ef: "event_sans_inset e = event_sans_inset f"
    and rest: "map event_sans_inset es = map event_sans_inset fs'"
    by (cases fs) auto
  from step_sans_inset [OF Cons.prems(1) ef, of lib]
  have st: "state_sans_inset (fst (step lib e s)) = state_sans_inset (fst (step lib f t))"
    and ac: "snd (step lib e s) = snd (step lib f t)" by simp_all
  from Cons.IH [OF st rest] ac show ?case by (simp add: fs)
qed

lemma render_sans_inset: "render a (drop_inset p) h = render a p h"
  by (simp add: render_def drop_inset_def imagePosition_def imageWidth_def imageHeight_def
      scaledImage_def)

lemma render_cong_inset: "drop_inset p = drop_inset q \<Longrightarrow> render a p h = render a q h"
  using render_sans_inset [of a p h] render_sans_inset [of a q h] by simp

text \<open>
  C9. Two runs of the component whose props, at mounting and at every later render,
  differ at most in \<open>imageInset\<close>, and that see the same ticks and pointer events, agree
  on everything computed: the state apart from the stored \<open>imageInset\<close> (node pose,
  pose targets, hover flag, memo cells), the calls made by the handlers, and the
  render output (image plane width, height and position, and the rest of the tree).
\<close>

theorem imageInset_unused:
  assumes "drop_inset p = drop_inset q"
    and "map event_sans_inset es = map event_sans_inset fs"
  shows "state_sans_inset (exec lib p es) = state_sans_inset (exec lib q fs)
         \<and> emitted lib (mount p) es = emitted lib (mount q) fs
         \<and> render a (props_of (exec lib p es)) (isHovered (exec lib p es))
             = render a (props_of (exec lib q fs)) (isHovered (exec lib q fs))"
proof -
  from run_sans_inset [OF mount_sans_inset [OF assms(1)] assms(2), of lib]
  have st: "state_sans_inset (exec lib p es) = state_sans_inset (exec lib q fs)"
    and em: "emitted lib (mount p) es = emitted lib (mount q) fs"
    by (simp_all add: exec_def)
  from st have pr: "drop_inset (props_of (exec lib p es)) = drop_inset (props_of (exec lib q fs))"
    and hv: "isHovered (exec lib p es) = isHovered (exec lib q fs)"
    by (simp_all add: state_sans_inset_eq)
  have "render a (props_of (exec lib p es)) (isHovered (exec lib p es))
          = render a (props_of (exec lib q fs)) (isHovered (exec lib p es))"
    by (rule render_cong_inset [OF pr])
  with hv have "render a (props_of (exec lib p es)) (isHovered (exec lib p es))
             = render a (props_of (exec lib q fs)) (isHovered (exec lib q fs))"
    by simp
  with st em show ?thesis by simp
qed

theorem imageInset_unused_witness:
  "drop_inset (example_props\<lparr>imageInset := Some 0.01\<rparr>)
     = drop_inset (example_props\<lparr>imageInset := Some 0.5\<rparr>)
   \<and> map event_sans_inset [PointerOver, Rerender (active_props\<lparr>imageInset := Some 1\<rparr>), Click]
     = map event_sans_inset [PointerOver, Rerender (active_props\<lparr>imageInset := Some 2\<rparr>), Click]
   \<and> emitted example_library (mount (example_props\<lparr>imageInset := Some 0.01\<rparr>))
        [PointerOver, Rerender (active_props\<lparr>imageInset := Some 1\<rparr>), Click]
     = emitted example_library (mount (example_props\<lparr>imageInset := Some 0.5\<rparr>))
        [PointerOver, Rerender (active_props\<lparr>imageInset := Some 2\<rparr>), Click]
   \<and> render example_asset
        (props_of (exec example_library (example_props\<lparr>imageInset := Some 0.01\<rparr>)
           [PointerOver, Rerender (active_props\<lparr>imageInset := Some 1\<rparr>), Click]))
        (isHovered (exec example_library (example_props\<lparr>imageInset := Some 0.01\<rparr>)
           [PointerOver, Rerender (active_props\<lparr>imageInset := Some 1\<rparr>), Click]))
     = render example_asset
        (props_of (exec example_library (example_props\<lparr>imageInset := Some 0.5\<rparr>)
           [PointerOver, Rerender (active_props\<lparr>imageInset := Some 2\<rparr>), Click]))
        (isHovered (exec example_library (example_props\<lparr>imageInset := Some 0.5\<rparr>)
           [PointerOver, Rerender (active_props\<lparr>imageInset := Some 2\<rparr>), Click]))"
proof -
  have h1: "drop_inset (example_props\<lparr>imageInset := Some 0.01\<rparr>)
     = drop_inset (example_props\<lparr>imageInset := Some 0.5\<rparr>)"
    by (simp add: drop_inset_def)
  have h2: "map event_sans_inset
        [PointerOver, Rerender (active_props\<lparr>imageInset := Some 1\<rparr>), Click]
     = map event_sans_inset
        [PointerOver, Rerender (active_props\<lparr>imageInset := Some 2\<rparr>), Click]"
    by (simp add: drop_inset_def)
  from imageInset_unused [OF h1 h2, of example_library example_asset] h1 h2
  show ?thesis by blast
qed

end
